theory Spec2Isabelle
  imports Main "HOL-Library.AList" "HOL-Library.Product_Lexorder" "HOL-Library.List_Lexorder"
begin

section \<open>Values and documents\<close>

text \<open>
  The package \<open>mgodo\<close> wraps a document collection and a change-log collection of the
  mgo driver behind one struct, \<open>Do\<close>. Go values that reach the store (field values,
  filters, stored documents) are modelled by one datatype. \<open>BDoc\<close> is a \<open>bson.M\<close>
  (an association list read through \<open>map_of\<close>, written through \<open>AList.update\<close>, which is
  what \<open>m[k] = v\<close> does on a Go map), \<open>BArr\<close> is a \<open>[]interface{}\<close>. Object ids and times
  are numbered; \<open>0\<close> is the zero value of either type.
\<close>

datatype bson = BNull | BBool bool | BInt int | BStr string | BOid nat | BTime nat
  | BDoc "(string \<times> bson) list" | BArr "bson list"

type_synonym doc = "(string \<times> bson) list"

datatype kind = KNull | KBool | KInt | KStr | KOid | KTime | KDoc | KArr

fun kind_of :: "bson \<Rightarrow> kind" where
  "kind_of BNull = KNull"
| "kind_of (BBool b) = KBool"
| "kind_of (BInt i) = KInt"
| "kind_of (BStr s) = KStr"
| "kind_of (BOid n) = KOid"
| "kind_of (BTime t) = KTime"
| "kind_of (BDoc d) = KDoc"
| "kind_of (BArr xs) = KArr"

fun zero_of :: "kind \<Rightarrow> bson" where
  "zero_of KNull = BNull"
| "zero_of KBool = BBool False"
| "zero_of KInt = BInt 0"
| "zero_of KStr = BStr []"
| "zero_of KOid = BOid 0"
| "zero_of KTime = BTime 0"
| "zero_of KDoc = BDoc []"
| "zero_of KArr = BArr []"

section \<open>Records seen through reflection\<close>

text \<open>
  The record is a caller-defined struct reached through \<open>reflect\<close>. A field has its Go
  name, the bson key its tag gives it, and a slot: \<open>Typed v\<close> is a field whose static type
  is the type of \<open>v\<close>, \<open>Iface x\<close> a field declared \<open>interface{}\<close> holding \<open>x\<close> (or nil).
  \<open>model\<close> is an \<open>interface{}\<close>: a string, a struct value or a pointer to a struct.
\<close>

datatype slot = Typed bson | Iface "bson option"

datatype field = Fld (fname: string) (fkey: string) (fslot: slot)

datatype gmodel = MString string | MStruct string "field list" | MPtr string "field list"

text \<open>\<open>getModelName\<close>: the string itself, or the name of the (pointed-to) type.\<close>

fun getModelName :: "gmodel \<Rightarrow> string" where
  "getModelName (MString s) = s"
| "getModelName (MStruct n fs) = n"
| "getModelName (MPtr n fs) = n"

text \<open>
  \<open>FieldByName\<close> yields the zero \<open>Value\<close> (here \<open>None\<close>) for a missing field and does not
  panic by itself; \<open>Set\<close> and \<open>Interface\<close> on the zero \<open>Value\<close> do. \<open>Set\<close> also panics when
  the value is not assignable to the field's type. In the two functions below \<open>None\<close> is
  the panic.
\<close>

definition FieldByName :: "string \<Rightarrow> field list \<Rightarrow> field option" where
  "FieldByName n fs = find (\<lambda>f. fname f = n) fs"

fun put_slot :: "string \<Rightarrow> slot \<Rightarrow> field list \<Rightarrow> field list" where
  "put_slot n s [] = []"
| "put_slot n s (f # fs) =
     (if fname f = n then Fld (fname f) (fkey f) s # fs else f # put_slot n s fs)"

definition reflect_Set :: "string \<Rightarrow> bson \<Rightarrow> field list \<Rightarrow> field list option" where
  "reflect_Set n v fs =
     (case FieldByName n fs of
        None \<Rightarrow> None
      | Some f \<Rightarrow>
          (case fslot f of
             Typed old \<Rightarrow> if kind_of old = kind_of v then Some (put_slot n (Typed v) fs) else None
           | Iface x \<Rightarrow> Some (put_slot n (Iface (Some v)) fs)))"

fun slot_value :: "slot \<Rightarrow> bson" where
  "slot_value (Typed v) = v"
| "slot_value (Iface None) = BNull"
| "slot_value (Iface (Some v)) = v"

definition reflect_Interface :: "string \<Rightarrow> field list \<Rightarrow> bson option" where
  "reflect_Interface n fs = map_option (\<lambda>f. slot_value (fslot f)) (FieldByName n fs)"

text \<open>The document the driver builds from a struct: one entry per field, under its key.\<close>

definition marshal :: "field list \<Rightarrow> doc" where
  "marshal fs = map (\<lambda>f. (fkey f, slot_value (fslot f))) fs"

text \<open>
  Decoding a document into a struct: the driver zeroes the struct, then fills every field
  whose key is present with a value of the field's type.
\<close>

fun decode_slot :: "bson option \<Rightarrow> slot \<Rightarrow> slot" where
  "decode_slot x (Iface y) = Iface x"
| "decode_slot None (Typed old) = Typed (zero_of (kind_of old))"
| "decode_slot (Some v) (Typed old) =
     (if kind_of v = kind_of old then Typed v else Typed (zero_of (kind_of old)))"

definition unmarshal :: "doc \<Rightarrow> field list \<Rightarrow> field list" where
  "unmarshal d fs = map (\<lambda>f. Fld (fname f) (fkey f) (decode_slot (map_of d (fkey f)) (fslot f))) fs"

section \<open>The change log\<close>

text \<open>
  Modelled from the spec: the struct \<open>ChangeLog\<close> and the operation constants \<open>UPDATE\<close>,
  \<open>DELETE\<close>, \<open>ERASE\<close> are declared outside \<open>mgodo.go\<close>. The fields are the ones \<open>saveLog\<close>
  assigns; the operations are the closed enumeration of the data model.
\<close>

datatype operation = CREATE | UPDATE | DELETE | ERASE

record ChangeLog =
  cl_Id :: bson
  cl_CreatedBy :: string
  cl_CreatedAt :: bson
  cl_ChangeReason :: string
  cl_Operation :: operation
  cl_ModelObjId :: bson
  cl_ModelName :: string
  cl_ModelValue :: bson

section \<open>Queries and the store\<close>

text \<open>
  An \<open>mgo.Query\<close> is the description of a read: the filter given to \<open>Find\<close>, the fields
  given to \<open>Sort\<close>, and the arguments of \<open>Skip\<close>, \<open>Limit\<close> and \<open>Select\<close> where they were
  called.
\<close>

record query =
  qfilter :: doc
  qsort :: "string list"
  qskip :: "int option"
  qlimit :: "int option"
  qselect :: "doc option"

datatype err = ErrNotFound | ErrDecode | StoreFailure nat

datatype call =
    CUpsert bson doc
  | CLogUpsert ChangeLog
  | CFindId bson
  | CRemoveId bson
  | CRemoveAll "doc option"
  | COne query
  | CAll query
  | CCount query
  | CDistinct string query

text \<open>
  The world outside the package: both collections, the clock behind \<open>time.Now\<close>, the
  supply behind \<open>bson.NewObjectId\<close>, the outcome the store has in stock for each coming
  call (\<open>None\<close>: the call is served; \<open>Some e\<close>: it fails with \<open>e\<close> and changes nothing; an
  empty list serves every call), and the calls made so far, each with the error the store
  reported for it.
\<close>

record world =
  coll :: "doc list"
  logs :: "ChangeLog list"
  clock :: nat
  oids :: nat
  faults :: "err option list"
  trace :: "(call \<times> err option) list"

definition Now :: "world \<Rightarrow> bson \<times> world" where
  "Now w = (BTime (Suc (clock w)), w\<lparr>clock := Suc (clock w)\<rparr>)"

definition NewObjectId :: "world \<Rightarrow> bson \<times> world" where
  "NewObjectId w = (BOid (Suc (oids w)), w\<lparr>oids := Suc (oids w)\<rparr>)"

definition next_outcome :: "world \<Rightarrow> err option \<times> world" where
  "next_outcome w = (case faults w of [] \<Rightarrow> (None, w) | f # fs \<Rightarrow> (f, w\<lparr>faults := fs\<rparr>))"

definition reported :: "call \<Rightarrow> err option \<Rightarrow> world \<Rightarrow> world" where
  "reported c r w = w\<lparr>trace := trace w @ [(c, r)]\<rparr>"

subsection \<open>Filters\<close>

text \<open>
  The fragment of the store's filter language the package itself writes: a document is a
  conjunction of its entries, \<open>$and\<close> and \<open>$or\<close> take a list of filters, \<open>{k: {$ne: x}}\<close>
  holds when the document's \<open>k\<close> is missing or differs from \<open>x\<close>, and any other entry
  compares the field with the value.
\<close>

fun field_cond :: "doc \<Rightarrow> string \<Rightarrow> bson \<Rightarrow> bool" where
  "field_cond d k (BDoc [(opr, x)]) =
     (if opr = ''$ne'' then map_of d k \<noteq> Some x else map_of d k = Some (BDoc [(opr, x)]))"
| "field_cond d k v = (map_of d k = Some v)"

fun matches :: "doc \<Rightarrow> bson \<Rightarrow> bool" where
  "matches d (BDoc q) =
     list_all (\<lambda>(k, v).
        if k = ''$and'' then (case v of BArr fs \<Rightarrow> list_all (matches d) fs | _ \<Rightarrow> False)
        else if k = ''$or'' then (case v of BArr fs \<Rightarrow> list_ex (matches d) fs | _ \<Rightarrow> False)
        else field_cond d k v) q"
| "matches d _ = False"

subsection \<open>Sorting, skipping, limiting, projecting\<close>

text \<open>
  A sort field is a key with an optional \<open>-\<close> (descending) or \<open>+\<close>. Values are ranked by
  type first (null and missing lowest, then numbers, strings, documents, arrays, object
  ids, booleans, dates) and by value within numbers, object ids, booleans and dates.
\<close>

fun sort_field :: "string \<Rightarrow> bool \<times> string" where
  "sort_field [] = (False, [])"
| "sort_field (c # cs) =
     (if c = CHR ''-'' then (True, cs) else if c = CHR ''+'' then (False, cs) else (False, c # cs))"

fun sort_rank :: "bson option \<Rightarrow> int \<times> int" where
  "sort_rank None = (0, 0)"
| "sort_rank (Some BNull) = (0, 0)"
| "sort_rank (Some (BInt i)) = (1, i)"
| "sort_rank (Some (BStr s)) = (2, 0)"
| "sort_rank (Some (BDoc d)) = (3, 0)"
| "sort_rank (Some (BArr xs)) = (4, 0)"
| "sort_rank (Some (BOid n)) = (5, int n)"
| "sort_rank (Some (BBool b)) = (6, if b then 1 else 0)"
| "sort_rank (Some (BTime t)) = (7, int t)"

definition sort_key_of :: "string list \<Rightarrow> doc \<Rightarrow> (int \<times> int) list" where
  "sort_key_of spec d =
     map (\<lambda>s. case sort_field s of (desc, k) \<Rightarrow>
                (case sort_rank (map_of d k) of (r, v) \<Rightarrow> if desc then (- r, - v) else (r, v))) spec"

definition sort_docs :: "string list \<Rightarrow> doc list \<Rightarrow> doc list" where
  "sort_docs spec ds = sort_key (sort_key_of spec) ds"

fun apply_skip :: "int option \<Rightarrow> doc list \<Rightarrow> doc list" where
  "apply_skip None ds = ds"
| "apply_skip (Some n) ds = drop (nat n) ds"

fun apply_limit :: "int option \<Rightarrow> doc list \<Rightarrow> doc list" where
  "apply_limit None ds = ds"
| "apply_limit (Some n) ds = take (nat \<bar>n\<bar>) ds"

fun project :: "doc option \<Rightarrow> doc \<Rightarrow> doc" where
  "project None d = d"
| "project (Some sel) d = filter (\<lambda>(k, v). k = ''_id'' \<or> map_of sel k \<noteq> None) d"

definition matching :: "query \<Rightarrow> doc list \<Rightarrow> doc list" where
  "matching q ds = filter (\<lambda>d. matches d (BDoc (qfilter q))) ds"

definition run_query :: "query \<Rightarrow> doc list \<Rightarrow> doc list" where
  "run_query q ds =
     map (project (qselect q))
       (apply_limit (qlimit q) (apply_skip (qskip q) (sort_docs (qsort q) (matching q ds))))"

subsection \<open>Store calls\<close>

text \<open>
  The driver's calls, as its documentation gives them for a session in safe mode (the
  driver's default): \<open>Upsert\<close> updates the first document the selector matches or inserts
  one made of the selector and the \<open>$set\<close> fields; \<open>One\<close> fails with \<open>ErrNotFound\<close> when
  nothing matches, and so does \<open>Remove\<close>/\<open>RemoveId\<close>; \<open>RemoveAll\<close> does not.
\<close>

definition has_id :: "bson \<Rightarrow> doc \<Rightarrow> bool" where
  "has_id i d = (map_of d ''_id'' = Some i)"

definition set_fields :: "doc \<Rightarrow> doc \<Rightarrow> doc" where
  "set_fields upd d = fold (\<lambda>(k, v). AList.update k v) upd d"

fun update_first :: "('a \<Rightarrow> bool) \<Rightarrow> ('a \<Rightarrow> 'a) \<Rightarrow> 'a list \<Rightarrow> 'a list" where
  "update_first p f [] = []"
| "update_first p f (x # xs) = (if p x then f x # xs else x # update_first p f xs)"

fun remove_first :: "('a \<Rightarrow> bool) \<Rightarrow> 'a list \<Rightarrow> 'a list" where
  "remove_first p [] = []"
| "remove_first p (x # xs) = (if p x then xs else x # remove_first p xs)"

definition upsert_docs :: "bson \<Rightarrow> doc \<Rightarrow> doc list \<Rightarrow> doc list" where
  "upsert_docs i upd ds =
     (if list_ex (has_id i) ds then update_first (has_id i) (set_fields upd) ds
      else ds @ [set_fields upd [(''_id'', i)]])"

definition coll_Upsert :: "bson \<Rightarrow> doc \<Rightarrow> world \<Rightarrow> err option \<times> world" where
  "coll_Upsert i upd w =
     (case next_outcome w of
        (Some e, w') \<Rightarrow> (Some e, reported (CUpsert i upd) (Some e) w')
      | (None, w') \<Rightarrow>
          (None, reported (CUpsert i upd) None (w'\<lparr>coll := upsert_docs i upd (coll w')\<rparr>)))"

definition upsert_logs :: "ChangeLog \<Rightarrow> ChangeLog list \<Rightarrow> ChangeLog list" where
  "upsert_logs cl ls =
     (if list_ex (\<lambda>l. cl_Id l = cl_Id cl) ls
      then update_first (\<lambda>l. cl_Id l = cl_Id cl) (\<lambda>l. cl) ls
      else ls @ [cl])"

definition log_Upsert :: "ChangeLog \<Rightarrow> world \<Rightarrow> err option \<times> world" where
  "log_Upsert cl w =
     (case next_outcome w of
        (Some e, w') \<Rightarrow> (Some e, reported (CLogUpsert cl) (Some e) w')
      | (None, w') \<Rightarrow>
          (None, reported (CLogUpsert cl) None (w'\<lparr>logs := upsert_logs cl (logs w')\<rparr>)))"

definition coll_FindId :: "bson \<Rightarrow> world \<Rightarrow> (err + doc) \<times> world" where
  "coll_FindId i w =
     (case next_outcome w of
        (Some e, w') \<Rightarrow> (Inl e, reported (CFindId i) (Some e) w')
      | (None, w') \<Rightarrow>
          (case find (has_id i) (coll w') of
             None \<Rightarrow> (Inl ErrNotFound, reported (CFindId i) (Some ErrNotFound) w')
           | Some d \<Rightarrow> (Inr d, reported (CFindId i) None w')))"

definition coll_RemoveId :: "bson \<Rightarrow> world \<Rightarrow> err option \<times> world" where
  "coll_RemoveId i w =
     (case next_outcome w of
        (Some e, w') \<Rightarrow> (Some e, reported (CRemoveId i) (Some e) w')
      | (None, w') \<Rightarrow>
          (if list_ex (has_id i) (coll w')
           then (None, reported (CRemoveId i) None
                         (w'\<lparr>coll := remove_first (has_id i) (coll w')\<rparr>))
           else (Some ErrNotFound, reported (CRemoveId i) (Some ErrNotFound) w')))"

text \<open>\<open>RemoveAll\<close> with a nil selector removes every document.\<close>

fun selector :: "doc option \<Rightarrow> doc" where
  "selector None = []"
| "selector (Some q) = q"

definition coll_RemoveAll :: "doc option \<Rightarrow> world \<Rightarrow> err option \<times> world" where
  "coll_RemoveAll sel w =
     (case next_outcome w of
        (Some e, w') \<Rightarrow> (Some e, reported (CRemoveAll sel) (Some e) w')
      | (None, w') \<Rightarrow>
          (None, reported (CRemoveAll sel) None
                   (w'\<lparr>coll := filter (\<lambda>d. \<not> matches d (BDoc (selector sel))) (coll w')\<rparr>)))"

text \<open>
  \<open>One\<close> decodes the first result into its argument, here the model: a pointer to a
  struct is filled, any other target is refused with an error.
\<close>

definition query_One :: "query \<Rightarrow> gmodel \<Rightarrow> world \<Rightarrow> (err option \<times> gmodel) \<times> world" where
  "query_One q g w =
     (case next_outcome w of
        (Some e, w') \<Rightarrow> ((Some e, g), reported (COne q) (Some e) w')
      | (None, w') \<Rightarrow>
          (case apply_skip (qskip q) (sort_docs (qsort q) (matching q (coll w'))) of
             [] \<Rightarrow> ((Some ErrNotFound, g), reported (COne q) (Some ErrNotFound) w')
           | d # ds \<Rightarrow>
               (case g of
                  MPtr n fs \<Rightarrow>
                    ((None, MPtr n (unmarshal (project (qselect q) d) fs)),
                     reported (COne q) None w')
                | other \<Rightarrow> ((Some ErrDecode, g), reported (COne q) (Some ErrDecode) w'))))"

definition query_All :: "query \<Rightarrow> world \<Rightarrow> (err + doc list) \<times> world" where
  "query_All q w =
     (case next_outcome w of
        (Some e, w') \<Rightarrow> (Inl e, reported (CAll q) (Some e) w')
      | (None, w') \<Rightarrow> (Inr (run_query q (coll w')), reported (CAll q) None w'))"

text \<open>\<open>Query.Count\<close> returns the count and an error; the count is \<open>0\<close> with an error.\<close>

definition query_Count :: "query \<Rightarrow> world \<Rightarrow> (int \<times> err option) \<times> world" where
  "query_Count q w =
     (case next_outcome w of
        (Some e, w') \<Rightarrow> ((0, Some e), reported (CCount q) (Some e) w')
      | (None, w') \<Rightarrow>
          ((int (length (apply_limit (qlimit q) (apply_skip (qskip q) (matching q (coll w'))))), None),
           reported (CCount q) None w'))"

definition query_Distinct :: "string \<Rightarrow> query \<Rightarrow> world \<Rightarrow> (err + bson list) \<times> world" where
  "query_Distinct k q w =
     (case next_outcome w of
        (Some e, w') \<Rightarrow> (Inl e, reported (CDistinct k q) (Some e) w')
      | (None, w') \<Rightarrow>
          (Inr (remdups (List.map_filter (\<lambda>d. map_of d k) (matching q (coll w')))),
           reported (CDistinct k q) None w'))"

section \<open>The operation context and its operations\<close>

text \<open>
  \<open>Do\<close> without its handles, which live in the world. \<open>Query\<close> and \<open>Sort\<close> are \<open>None\<close> when
  nil. An operation either panics or returns; it returns its error (\<open>None\<close> is nil), the
  context and the world as it leaves them.
\<close>

record Do =
  model :: gmodel
  Query :: "doc option"
  Sort :: "string list option"
  Skip :: int
  Limit :: int
  Operator :: string
  Reason :: string

datatype 'a outcome = Panicked | Returned 'a

text \<open>\<open>reflect.ValueOf(m.model).Elem()\<close> panics unless the model is a pointer.\<close>

fun Elem :: "gmodel \<Rightarrow> (string \<times> field list) option" where
  "Elem (MPtr n fs) = Some (n, fs)"
| "Elem g = None"

definition Create :: "Do \<Rightarrow> world \<Rightarrow> (err option \<times> Do \<times> world) outcome" where
  "Create m w =
     (case Elem (model m) of
        None \<Rightarrow> Panicked
      | Some (n, fs) \<Rightarrow>
          (case NewObjectId w of (oid, w1) \<Rightarrow>
           case reflect_Set ''Id'' oid fs of
             None \<Rightarrow> Panicked
           | Some fs1 \<Rightarrow>
               (case Now w1 of (t, w2) \<Rightarrow>
                case reflect_Set ''CreatedAt'' t fs1 of
                  None \<Rightarrow> Panicked
                | Some fs2 \<Rightarrow>
                    (case reflect_Set ''CreatedBy'' (BStr (Operator m)) fs2 of
                       None \<Rightarrow> Panicked
                     | Some fs3 \<Rightarrow>
                         (case reflect_Interface ''Id'' fs3 of
                            None \<Rightarrow> Panicked
                          | Some i \<Rightarrow>
                              (case coll_Upsert i (marshal fs3) w2 of (e, w3) \<Rightarrow>
                                 Returned (e, m\<lparr>model := MPtr n fs3\<rparr>, w3)))))))"

definition Save :: "Do \<Rightarrow> world \<Rightarrow> (err option \<times> Do \<times> world) outcome" where
  "Save m w =
     (case Elem (model m) of
        None \<Rightarrow> Panicked
      | Some (n, fs) \<Rightarrow>
          (case Now w of (t, w1) \<Rightarrow>
           case reflect_Set ''UpdatedAt'' t fs of
             None \<Rightarrow> Panicked
           | Some fs1 \<Rightarrow>
               (case reflect_Set ''UpdatedBy'' (BStr (Operator m)) fs1 of
                  None \<Rightarrow> Panicked
                | Some fs2 \<Rightarrow>
                    (case reflect_Interface ''Id'' fs2 of
                       None \<Rightarrow> Panicked
                     | Some i \<Rightarrow>
                         (case coll_Upsert i (marshal fs2) w1 of (e, w2) \<Rightarrow>
                            Returned (e, m\<lparr>model := MPtr n fs2\<rparr>, w2))))))"

definition Erase :: "Do \<Rightarrow> world \<Rightarrow> (err option \<times> Do \<times> world) outcome" where
  "Erase m w =
     (case Elem (model m) of
        None \<Rightarrow> Panicked
      | Some (n, fs) \<Rightarrow>
          (case reflect_Interface ''Id'' fs of
             None \<Rightarrow> Panicked
           | Some i \<Rightarrow> (case coll_RemoveId i w of (e, w1) \<Rightarrow> Returned (e, m, w1))))"

definition Delete :: "Do \<Rightarrow> world \<Rightarrow> (err option \<times> Do \<times> world) outcome" where
  "Delete m w =
     (case Elem (model m) of
        None \<Rightarrow> Panicked
      | Some (n, fs) \<Rightarrow>
          (case Now w of (t, w1) \<Rightarrow>
           case reflect_Set ''RemovedAt'' t fs of
             None \<Rightarrow> Panicked
           | Some fs1 \<Rightarrow>
               (case reflect_Set ''RemovedBy'' (BStr (Operator m)) fs1 of
                  None \<Rightarrow> Panicked
                | Some fs2 \<Rightarrow>
                    (case reflect_Set ''IsRemoved'' (BBool True) fs2 of
                       None \<Rightarrow> Panicked
                     | Some fs3 \<Rightarrow>
                         (case reflect_Interface ''Id'' fs3 of
                            None \<Rightarrow> Panicked
                          | Some i \<Rightarrow>
                              (case coll_Upsert i (marshal fs3) w1 of (e, w2) \<Rightarrow>
                                 Returned (e, m\<lparr>model := MPtr n fs3\<rparr>, w2)))))))"

text \<open>
  \<open>saveLog\<close>: the type assertion \<open>.(bson.ObjectId)\<close> panics unless the \<open>Id\<close> field holds an
  object id; the record is re-read from the store, and the entry is upserted under an
  identity of its own.
\<close>

definition saveLog :: "operation \<Rightarrow> Do \<Rightarrow> world \<Rightarrow> (err option \<times> Do \<times> world) outcome" where
  "saveLog operation m w =
     (case Elem (model m) of
        None \<Rightarrow> Panicked
      | Some (n, fs) \<Rightarrow>
          (case reflect_Interface ''Id'' fs of
             Some (BOid r) \<Rightarrow>
               (case coll_FindId (BOid r) w of
                  (Inl e, w1) \<Rightarrow> Returned (Some e, m, w1)
                | (Inr record, w1) \<Rightarrow>
                    (case NewObjectId w1 of (lid, w2) \<Rightarrow>
                     case Now w2 of (t, w3) \<Rightarrow>
                     case log_Upsert
                            \<lparr>cl_Id = lid, cl_CreatedBy = Operator m, cl_CreatedAt = t,
                             cl_ChangeReason = Reason m, cl_Operation = operation,
                             cl_ModelObjId = BOid r, cl_ModelName = getModelName (model m),
                             cl_ModelValue = BDoc record\<rparr> w3 of
                       (e, w4) \<Rightarrow> Returned (e, m, w4)))
           | _ \<Rightarrow> Panicked))"

definition SaveWithLog :: "Do \<Rightarrow> world \<Rightarrow> (err option \<times> Do \<times> world) outcome" where
  "SaveWithLog m w =
     (case Save m w of
        Panicked \<Rightarrow> Panicked
      | Returned (Some e, m1, w1) \<Rightarrow> Returned (Some e, m1, w1)
      | Returned (None, m1, w1) \<Rightarrow>
          (case saveLog UPDATE m1 w1 of
             Panicked \<Rightarrow> Panicked
           | Returned (Some e, m2, w2) \<Rightarrow> Returned (Some e, m2, w2)
           | Returned (None, m2, w2) \<Rightarrow> Returned (None, m2, w2)))"

definition EraseWithLog :: "Do \<Rightarrow> world \<Rightarrow> (err option \<times> Do \<times> world) outcome" where
  "EraseWithLog m w =
     (case saveLog ERASE m w of
        Panicked \<Rightarrow> Panicked
      | Returned (Some e, m1, w1) \<Rightarrow> Returned (Some e, m1, w1)
      | Returned (None, m1, w1) \<Rightarrow> Erase m1 w1)"

definition DeleteWithLog :: "Do \<Rightarrow> world \<Rightarrow> (err option \<times> Do \<times> world) outcome" where
  "DeleteWithLog m w =
     (case saveLog DELETE m w of
        Panicked \<Rightarrow> Panicked
      | Returned (Some e, m1, w1) \<Rightarrow> Returned (Some e, m1, w1)
      | Returned (None, m1, w1) \<Rightarrow>
          (case Delete m1 w1 of
             Panicked \<Rightarrow> Panicked
           | Returned (Some e, m2, w2) \<Rightarrow> Returned (Some e, m2, w2)
           | Returned (None, m2, w2) \<Rightarrow> Returned (None, m2, w2)))"

subsection \<open>Reads\<close>

definition rmQ :: "bson list" where
  "rmQ = [BDoc [(''is_removed'', BDoc [(''$ne'', BBool True)])],
          BDoc [(''IsRemoved'', BDoc [(''$ne'', BBool True)])]]"

text \<open>
  \<open>findQ\<close> writes the composed filter into \<open>m.Query\<close> and builds the query from it. The
  assertion \<open>v.([]interface{})\<close> panics when \<open>$and\<close> holds anything but such a list. No
  store call is made here.
\<close>

definition findQ :: "Do \<Rightarrow> (query \<times> Do) outcome" where
  "findQ m =
     (case (case Query m of
              Some q \<Rightarrow>
                (case map_of q ''$and'' of
                   None \<Rightarrow> Some (AList.update ''$and'' (BArr rmQ) q)
                 | Some (BArr v) \<Rightarrow> Some (AList.update ''$and'' (BArr (v @ rmQ)) q)
                 | Some other \<Rightarrow> None)
            | None \<Rightarrow> Some [(''$and'', BArr rmQ)]) of
        None \<Rightarrow> Panicked
      | Some q' \<Rightarrow>
          Returned
            (\<lparr>qfilter = q',
              qsort = (case Sort m of Some s \<Rightarrow> s | None \<Rightarrow> [''-UpdatedAt'', ''-CreatedAt'']),
              qskip = (if Skip m \<noteq> 0 then Some (Skip m) else None),
              qlimit = (if Limit m \<noteq> 0 then Some (Limit m) else None),
              qselect = None\<rparr>,
             m\<lparr>Query := Some q'\<rparr>))"

definition Q :: "Do \<Rightarrow> (query \<times> Do) outcome" where
  "Q m = findQ m"

definition findByIdQ :: "Do \<Rightarrow> (query \<times> Do) outcome" where
  "findByIdQ m =
     (case Elem (model m) of
        None \<Rightarrow> Panicked
      | Some (n, fs) \<Rightarrow>
          (case reflect_Interface ''Id'' fs of
             None \<Rightarrow> Panicked
           | Some i \<Rightarrow> findQ (m\<lparr>Query := Some [(''_id'', i)]\<rparr>)))"

definition Count :: "Do \<Rightarrow> world \<Rightarrow> (int \<times> Do \<times> world) outcome" where
  "Count m w =
     (case findQ m of
        Panicked \<Rightarrow> Panicked
      | Returned (q, m1) \<Rightarrow>
          (case query_Count q w of ((count, e), w1) \<Rightarrow> Returned (count, m1, w1)))"

text \<open>
  \<open>FindAll\<close>, \<open>FindWithSelect\<close> and \<open>Distinct\<close> fill the caller's \<open>i\<close>: the result carries what
  was written there, \<open>None\<close> when nothing was.
\<close>

definition FindAll :: "Do \<Rightarrow> world \<Rightarrow> (err option \<times> doc list option \<times> Do \<times> world) outcome" where
  "FindAll m w =
     (case findQ m of
        Panicked \<Rightarrow> Panicked
      | Returned (q, m1) \<Rightarrow>
          (case query_All q w of
             (Inl e, w1) \<Rightarrow> Returned (Some e, None, m1, w1)
           | (Inr ds, w1) \<Rightarrow> Returned (None, Some ds, m1, w1)))"

definition Get :: "Do \<Rightarrow> world \<Rightarrow> (err option \<times> Do \<times> world) outcome" where
  "Get m w =
     (case findByIdQ m of
        Panicked \<Rightarrow> Panicked
      | Returned (q, m1) \<Rightarrow>
          (case query_One q (model m1) w of ((e, g), w1) \<Rightarrow> Returned (e, m1\<lparr>model := g\<rparr>, w1)))"

definition GetByQ :: "Do \<Rightarrow> world \<Rightarrow> (err option \<times> Do \<times> world) outcome" where
  "GetByQ m w =
     (case findQ m of
        Panicked \<Rightarrow> Panicked
      | Returned (q, m1) \<Rightarrow>
          (case query_One q (model m1) w of ((e, g), w1) \<Rightarrow> Returned (e, m1\<lparr>model := g\<rparr>, w1)))"

definition sCols :: "string list \<Rightarrow> doc" where
  "sCols cols = fold (\<lambda>v. AList.update v (BInt 1)) cols []"

definition FindWithSelect ::
  "string list \<Rightarrow> Do \<Rightarrow> world \<Rightarrow> (err option \<times> doc list option \<times> Do \<times> world) outcome" where
  "FindWithSelect cols m w =
     (case findQ m of
        Panicked \<Rightarrow> Panicked
      | Returned (q, m1) \<Rightarrow>
          (case query_All (q\<lparr>qselect := Some (sCols cols)\<rparr>) w of
             (Inl e, w1) \<Rightarrow> Returned (Some e, None, m1, w1)
           | (Inr ds, w1) \<Rightarrow> Returned (None, Some ds, m1, w1)))"

definition Distinct ::
  "string \<Rightarrow> Do \<Rightarrow> world \<Rightarrow> (err option \<times> bson list option \<times> Do \<times> world) outcome" where
  "Distinct key m w =
     (case findQ m of
        Panicked \<Rightarrow> Panicked
      | Returned (q, m1) \<Rightarrow>
          (case query_Distinct key q w of
             (Inl e, w1) \<Rightarrow> Returned (Some e, None, m1, w1)
           | (Inr vs, w1) \<Rightarrow> Returned (None, Some vs, m1, w1)))"

definition GetWithSelect :: "string list \<Rightarrow> Do \<Rightarrow> world \<Rightarrow> (err option \<times> Do \<times> world) outcome" where
  "GetWithSelect cols m w =
     (case findByIdQ m of
        Panicked \<Rightarrow> Panicked
      | Returned (q, m1) \<Rightarrow>
          (case query_One (q\<lparr>qselect := Some (sCols cols)\<rparr>) (model m1) w of
             ((e, g), w1) \<Rightarrow> Returned (e, m1\<lparr>model := g\<rparr>, w1)))"

definition EraseAll :: "Do \<Rightarrow> world \<Rightarrow> (err option \<times> Do \<times> world) outcome" where
  "EraseAll m w = (case coll_RemoveAll (Query m) w of (e, w1) \<Rightarrow> Returned (e, m, w1))"

section \<open>Operations by name\<close>

text \<open>
  The operations that return an error, under one name each, with the error, the context
  and the world they leave; and the reads that go through \<open>findQ\<close>, with the context and
  the world they leave.
\<close>

datatype action =
    ACreate | ASave | AErase | ADelete | ASaveWithLog | AEraseWithLog | ADeleteWithLog
  | AFindAll | AGet | AGetByQ | AFindWithSelect "string list" | ADistinct string
  | AGetWithSelect "string list" | AEraseAll

fun without_result ::
  "(err option \<times> 'r \<times> Do \<times> world) outcome \<Rightarrow> (err option \<times> Do \<times> world) outcome" where
  "without_result Panicked = Panicked"
| "without_result (Returned (e, r, m, w)) = Returned (e, m, w)"

fun perform :: "action \<Rightarrow> Do \<Rightarrow> world \<Rightarrow> (err option \<times> Do \<times> world) outcome" where
  "perform ACreate m w = Create m w"
| "perform ASave m w = Save m w"
| "perform AErase m w = Erase m w"
| "perform ADelete m w = Delete m w"
| "perform ASaveWithLog m w = SaveWithLog m w"
| "perform AEraseWithLog m w = EraseWithLog m w"
| "perform ADeleteWithLog m w = DeleteWithLog m w"
| "perform AFindAll m w = without_result (FindAll m w)"
| "perform AGet m w = Get m w"
| "perform AGetByQ m w = GetByQ m w"
| "perform (AFindWithSelect cols) m w = without_result (FindWithSelect cols m w)"
| "perform (ADistinct key) m w = without_result (Distinct key m w)"
| "perform (AGetWithSelect cols) m w = GetWithSelect cols m w"
| "perform AEraseAll m w = EraseAll m w"

datatype reader =
    RQ | RCount | RFindAll | RGet | RGetByQ | RFindWithSelect "string list" | RDistinct string
  | RGetWithSelect "string list"

fun after :: "(err option \<times> Do \<times> world) outcome \<Rightarrow> (Do \<times> world) outcome" where
  "after Panicked = Panicked"
| "after (Returned (e, m, w)) = Returned (m, w)"

fun reads :: "reader \<Rightarrow> Do \<Rightarrow> world \<Rightarrow> (Do \<times> world) outcome" where
  "reads RQ m w = (case Q m of Panicked \<Rightarrow> Panicked | Returned (q, m1) \<Rightarrow> Returned (m1, w))"
| "reads RCount m w =
     (case Count m w of Panicked \<Rightarrow> Panicked | Returned (n, m1, w1) \<Rightarrow> Returned (m1, w1))"
| "reads RFindAll m w = after (perform AFindAll m w)"
| "reads RGet m w = after (Get m w)"
| "reads RGetByQ m w = after (GetByQ m w)"
| "reads (RFindWithSelect cols) m w = after (perform (AFindWithSelect cols) m w)"
| "reads (RDistinct key) m w = after (perform (ADistinct key) m w)"
| "reads (RGetWithSelect cols) m w = after (GetWithSelect cols m w)"

fun by_identity :: "reader \<Rightarrow> bool" where
  "by_identity RGet = True"
| "by_identity (RGetWithSelect cols) = True"
| "by_identity r = False"

fun returned :: "'a outcome \<Rightarrow> 'a option" where
  "returned Panicked = None"
| "returned (Returned x) = Some x"

section \<open>A record type, a context and a store to run the operations on\<close>

definition user_fields :: "field list" where
  "user_fields =
     [Fld ''Id'' ''_id'' (Typed (BOid 1)),
      Fld ''Name'' ''name'' (Typed (BStr ''A'')),
      Fld ''CreatedAt'' ''CreatedAt'' (Typed (BTime 3)),
      Fld ''CreatedBy'' ''CreatedBy'' (Typed (BStr ''alice'')),
      Fld ''UpdatedAt'' ''UpdatedAt'' (Typed (BTime 0)),
      Fld ''UpdatedBy'' ''UpdatedBy'' (Typed (BStr [])),
      Fld ''RemovedAt'' ''RemovedAt'' (Typed (BTime 0)),
      Fld ''RemovedBy'' ''RemovedBy'' (Typed (BStr [])),
      Fld ''IsRemoved'' ''is_removed'' (Typed (BBool False))]"

definition user_ctx :: Do where
  "user_ctx =
     \<lparr>model = MPtr ''User'' user_fields, Query = None, Sort = None, Skip = 0, Limit = 0,
      Operator = ''bob'', Reason = ''cleanup''\<rparr>"

definition user_doc :: doc where
  "user_doc = marshal user_fields"

definition user_world :: world where
  "user_world = \<lparr>coll = [user_doc], logs = [], clock = 10, oids = 1, faults = [], trace = []\<rparr>"

definition empty_world :: world where
  "empty_world = \<lparr>coll = [], logs = [], clock = 10, oids = 0, faults = [], trace = []\<rparr>"

section \<open>Predicates on traces\<close>

text \<open>
  The calls an operation made stop at the first one the store failed, and \<open>e\<close> is what the
  store reported for the last of them.
\<close>

definition stops_at_first_error :: "(call \<times> err option) list \<Rightarrow> err option \<Rightarrow> bool" where
  "stops_at_first_error cs e =
     (cs \<noteq> [] \<and> snd (last cs) = e \<and> list_all (\<lambda>c. snd c = None) (butlast cs))"

definition propagates :: "world \<Rightarrow> world \<Rightarrow> err option \<Rightarrow> bool" where
  "propagates w w' e = (\<exists>cs. trace w' = trace w @ cs \<and> stops_at_first_error cs e)"


section \<open>Predicates on record types\<close>

text \<open>
  A field \<open>Set\<close> accepts a value of kind \<open>k\<close> for, a field that exists, and a model that is
  a pointer to a struct whose fields satisfy \<open>p\<close>.
\<close>

definition settable :: "string \<Rightarrow> kind \<Rightarrow> field list \<Rightarrow> bool" where
  "settable n k fs =
     (case FieldByName n fs of
        None \<Rightarrow> False
      | Some f \<Rightarrow> (case fslot f of Typed old \<Rightarrow> kind_of old = k | Iface x \<Rightarrow> True))"

definition present :: "string \<Rightarrow> field list \<Rightarrow> bool" where
  "present n fs = (FieldByName n fs \<noteq> None)"

definition usable :: "(field list \<Rightarrow> bool) \<Rightarrow> gmodel \<Rightarrow> bool" where
  "usable p g = (case Elem g of None \<Rightarrow> False | Some (n, fs) \<Rightarrow> p fs)"

text \<open>
  Two more record types: one with the creation fields only, one whose \<open>Id\<close> is a string.
\<close>

definition note_fields :: "field list" where
  "note_fields =
     [Fld ''Id'' ''_id'' (Typed (BOid 0)),
      Fld ''CreatedAt'' ''CreatedAt'' (Typed (BTime 0)),
      Fld ''CreatedBy'' ''CreatedBy'' (Typed (BStr []))]"

definition tag_fields :: "field list" where
  "tag_fields =
     [Fld ''Id'' ''_id'' (Typed (BStr ''k1'')), Fld ''Label'' ''label'' (Typed (BStr ''x''))]"

section \<open>Store calls and their traces\<close>

lemma coll_Upsert_trace: "coll_Upsert i u w = (e, w') \<Longrightarrow> trace w' = trace w @ [(CUpsert i u, e)]"
  by (auto simp: coll_Upsert_def next_outcome_def reported_def split: list.splits option.splits)

lemma log_Upsert_trace: "log_Upsert cl w = (e, w') \<Longrightarrow> trace w' = trace w @ [(CLogUpsert cl, e)]"
  by (auto simp: log_Upsert_def next_outcome_def reported_def split: list.splits option.splits)

lemma coll_FindId_trace:
  "coll_FindId i w = (r, w') \<Longrightarrow>
   trace w' = trace w @ [(CFindId i, case r of Inl e \<Rightarrow> Some e | Inr d \<Rightarrow> None)]"
  by (auto simp: coll_FindId_def next_outcome_def reported_def split: list.splits option.splits)

lemma coll_RemoveId_trace: "coll_RemoveId i w = (e, w') \<Longrightarrow> trace w' = trace w @ [(CRemoveId i, e)]"
  by (auto simp: coll_RemoveId_def next_outcome_def reported_def
      split: list.splits option.splits if_splits)

lemma coll_RemoveAll_trace:
  "coll_RemoveAll s w = (e, w') \<Longrightarrow> trace w' = trace w @ [(CRemoveAll s, e)]"
  by (auto simp: coll_RemoveAll_def next_outcome_def reported_def split: list.splits option.splits)

lemma query_One_trace: "query_One q g w = ((e, g'), w') \<Longrightarrow> trace w' = trace w @ [(COne q, e)]"
  by (auto simp: query_One_def next_outcome_def reported_def
      split: list.splits option.splits gmodel.splits)

lemma query_All_trace:
  "query_All q w = (r, w') \<Longrightarrow>
   trace w' = trace w @ [(CAll q, case r of Inl e \<Rightarrow> Some e | Inr d \<Rightarrow> None)]"
  by (auto simp: query_All_def next_outcome_def reported_def split: list.splits option.splits)

lemma query_Count_trace: "query_Count q w = ((n, e), w') \<Longrightarrow> trace w' = trace w @ [(CCount q, e)]"
  by (auto simp: query_Count_def next_outcome_def reported_def split: list.splits option.splits)

lemma query_Distinct_trace:
  "query_Distinct k q w = (r, w') \<Longrightarrow>
   trace w' = trace w @ [(CDistinct k q, case r of Inl e \<Rightarrow> Some e | Inr d \<Rightarrow> None)]"
  by (auto simp: query_Distinct_def next_outcome_def reported_def split: list.splits option.splits)

lemma Now_trace: "Now w = (t, w') \<Longrightarrow> trace w' = trace w"
  by (auto simp: Now_def)

lemma NewObjectId_trace: "NewObjectId w = (t, w') \<Longrightarrow> trace w' = trace w"
  by (auto simp: NewObjectId_def)

lemma Create_trace: "Create m w = Returned (e, m', w') \<Longrightarrow> \<exists>c. trace w' = trace w @ [(c, e)]"
  unfolding Create_def
  by (auto split: option.splits prod.splits dest!: coll_Upsert_trace Now_trace NewObjectId_trace)

lemma Save_trace: "Save m w = Returned (e, m', w') \<Longrightarrow> \<exists>c. trace w' = trace w @ [(c, e)]"
  unfolding Save_def
  by (auto split: option.splits prod.splits dest!: coll_Upsert_trace Now_trace)

lemma Delete_trace: "Delete m w = Returned (e, m', w') \<Longrightarrow> \<exists>c. trace w' = trace w @ [(c, e)]"
  unfolding Delete_def
  by (auto split: option.splits prod.splits dest!: coll_Upsert_trace Now_trace)

lemma Erase_trace: "Erase m w = Returned (e, m', w') \<Longrightarrow> \<exists>c. trace w' = trace w @ [(c, e)]"
  unfolding Erase_def
  by (auto split: option.splits prod.splits dest!: coll_RemoveId_trace)

lemma saveLog_trace:
  "saveLog opn m w = Returned (e, m', w') \<Longrightarrow>
   (\<exists>c. trace w' = trace w @ [(c, e)]) \<or> (\<exists>c c'. trace w' = trace w @ [(c, None), (c', e)])"
  unfolding saveLog_def
  by (auto split: option.splits prod.splits bson.splits sum.splits
      dest!: coll_FindId_trace log_Upsert_trace Now_trace NewObjectId_trace)

section \<open>Errors of the store\<close>

lemma propagates_single: "trace w' = trace w @ [(c, e)] \<Longrightarrow> propagates w w' e"
  by (auto simp: propagates_def stops_at_first_error_def)

lemma propagates_pair: "trace w' = trace w @ [(c, None), (c', e)] \<Longrightarrow> propagates w w' e"
  by (auto simp: propagates_def stops_at_first_error_def)

lemma propagates_trans:
  assumes "propagates w w1 None" "propagates w1 w' e"
  shows "propagates w w' e"
proof -
  obtain a where a: "trace w1 = trace w @ a" "stops_at_first_error a None"
    using assms(1) by (auto simp: propagates_def)
  obtain b where b: "trace w' = trace w1 @ b" "stops_at_first_error b e"
    using assms(2) by (auto simp: propagates_def)
  have "list_all (\<lambda>c. snd c = None) a"
    using a(2) by (cases a rule: rev_cases) (auto simp: stops_at_first_error_def)
  then have "stops_at_first_error (a @ b) e"
    using b(2) by (auto simp: stops_at_first_error_def butlast_append)
  then show ?thesis using a(1) b(1) by (auto simp: propagates_def)
qed

lemma Create_propagates: "Create m w = Returned (e, m', w') \<Longrightarrow> propagates w w' e"
  by (auto dest!: Create_trace intro: propagates_single)

lemma Save_propagates: "Save m w = Returned (e, m', w') \<Longrightarrow> propagates w w' e"
  by (auto dest!: Save_trace intro: propagates_single)

lemma Delete_propagates: "Delete m w = Returned (e, m', w') \<Longrightarrow> propagates w w' e"
  by (auto dest!: Delete_trace intro: propagates_single)

lemma Erase_propagates: "Erase m w = Returned (e, m', w') \<Longrightarrow> propagates w w' e"
  by (auto dest!: Erase_trace intro: propagates_single)

lemma saveLog_propagates: "saveLog opn m w = Returned (e, m', w') \<Longrightarrow> propagates w w' e"
  by (auto dest!: saveLog_trace intro: propagates_single propagates_pair)

lemma SaveWithLog_propagates: "SaveWithLog m w = Returned (e, m', w') \<Longrightarrow> propagates w w' e"
  unfolding SaveWithLog_def
  by (auto split: outcome.splits option.splits prod.splits
      dest: Save_propagates saveLog_propagates intro: propagates_trans)

lemma EraseWithLog_propagates: "EraseWithLog m w = Returned (e, m', w') \<Longrightarrow> propagates w w' e"
  unfolding EraseWithLog_def
  by (auto split: outcome.splits option.splits prod.splits
      dest: Erase_propagates saveLog_propagates intro: propagates_trans)

lemma DeleteWithLog_propagates: "DeleteWithLog m w = Returned (e, m', w') \<Longrightarrow> propagates w w' e"
  unfolding DeleteWithLog_def
  by (auto split: outcome.splits option.splits prod.splits
      dest: Delete_propagates saveLog_propagates intro: propagates_trans)

lemma FindAll_propagates: "FindAll m w = Returned (e, r, m', w') \<Longrightarrow> propagates w w' e"
  unfolding FindAll_def
  by (auto split: outcome.splits prod.splits sum.splits
      dest!: query_All_trace intro: propagates_single)

lemma FindWithSelect_propagates:
  "FindWithSelect cols m w = Returned (e, r, m', w') \<Longrightarrow> propagates w w' e"
  unfolding FindWithSelect_def
  by (auto split: outcome.splits prod.splits sum.splits
      dest!: query_All_trace intro: propagates_single)

lemma Distinct_propagates: "Distinct k m w = Returned (e, r, m', w') \<Longrightarrow> propagates w w' e"
  unfolding Distinct_def
  by (auto split: outcome.splits prod.splits sum.splits
      dest!: query_Distinct_trace intro: propagates_single)

lemma Get_propagates: "Get m w = Returned (e, m', w') \<Longrightarrow> propagates w w' e"
  unfolding Get_def
  by (auto split: outcome.splits prod.splits dest!: query_One_trace intro: propagates_single)

lemma GetByQ_propagates: "GetByQ m w = Returned (e, m', w') \<Longrightarrow> propagates w w' e"
  unfolding GetByQ_def
  by (auto split: outcome.splits prod.splits dest!: query_One_trace intro: propagates_single)

lemma GetWithSelect_propagates:
  "GetWithSelect cols m w = Returned (e, m', w') \<Longrightarrow> propagates w w' e"
  unfolding GetWithSelect_def
  by (auto split: outcome.splits prod.splits dest!: query_One_trace intro: propagates_single)

lemma EraseAll_propagates: "EraseAll m w = Returned (e, m', w') \<Longrightarrow> propagates w w' e"
  unfolding EraseAll_def
  by (auto split: prod.splits dest!: coll_RemoveAll_trace intro: propagates_single)

lemma without_result_Returned:
  "without_result x = Returned (e, m, w) \<Longrightarrow> \<exists>r. x = Returned (e, r, m, w)"
  by (cases x) auto

lemma Count_drops_error:
  "Count m w = Returned (n, m', w') \<Longrightarrow>
   \<exists>q r. trace w' = trace w @ [(CCount q, r)] \<and> (r \<noteq> None \<longrightarrow> n = 0)"
  unfolding Count_def
  by (auto split: outcome.splits prod.splits
      simp: query_Count_def next_outcome_def reported_def split: list.splits option.splits)

text \<open>
  C5, as the claim states it, fails on \<open>Count\<close>: its result type has no error, the code
  discards the error of \<open>query.Count()\<close>, and a store failure comes back as the count \<open>0\<close>.
\<close>

theorem Count_swallows_store_error:
  "map_option fst (returned (Count user_ctx (user_world\<lparr>faults := [Some (StoreFailure 7)]\<rparr>)))
     = Some 0
   \<and> map_option (map snd \<circ> trace \<circ> snd \<circ> snd)
        (returned (Count user_ctx (user_world\<lparr>faults := [Some (StoreFailure 7)]\<rparr>)))
     = Some [Some (StoreFailure 7)]"
  by (simp add: Count_def findQ_def user_ctx_def user_world_def query_Count_def next_outcome_def
      reported_def)

text \<open>
  C5, amended: every operation that returns an error returns the error the store reported
  for the last call the operation made, and each earlier call of the operation had
  succeeded; no error is replaced or dropped. \<open>Count\<close> returns no error: it makes one call
  and returns \<open>0\<close> when the store reports an error for it.
\<close>

theorem store_errors_returned_as_is:
  "(perform a m w = Returned (e, m', w') \<longrightarrow> propagates w w' e) \<and>
   (Count m w = Returned (n, m', w') \<longrightarrow>
      (\<exists>q r. trace w' = trace w @ [(CCount q, r)] \<and> (r \<noteq> None \<longrightarrow> n = 0)))"
proof (intro conjI impI)
  assume "perform a m w = Returned (e, m', w')"
  then show "propagates w w' e"
    by (cases a)
       (auto dest!: without_result_Returned
             dest: Create_propagates Save_propagates Erase_propagates Delete_propagates
               SaveWithLog_propagates EraseWithLog_propagates DeleteWithLog_propagates
               FindAll_propagates Get_propagates GetByQ_propagates FindWithSelect_propagates
               Distinct_propagates GetWithSelect_propagates EraseAll_propagates)
next
  assume "Count m w = Returned (n, m', w')"
  then show "\<exists>q r. trace w' = trace w @ [(CCount q, r)] \<and> (r \<noteq> None \<longrightarrow> n = 0)"
    by (rule Count_drops_error)
qed

theorem store_errors_returned_as_is_witness:
  "perform AErase user_ctx (user_world\<lparr>faults := [Some (StoreFailure 7)]\<rparr>)
     = Returned (Some (StoreFailure 7), user_ctx,
                 user_world\<lparr>trace := [(CRemoveId (BOid 1), Some (StoreFailure 7))]\<rparr>)
   \<and> propagates (user_world\<lparr>faults := [Some (StoreFailure 7)]\<rparr>)
        (user_world\<lparr>trace := [(CRemoveId (BOid 1), Some (StoreFailure 7))]\<rparr>)
        (Some (StoreFailure 7))
   \<and> Count (user_ctx\<lparr>Query := Some []\<rparr>) user_world
     = Returned (1, user_ctx\<lparr>Query := Some [(''$and'', BArr rmQ)]\<rparr>,
                 user_world\<lparr>trace :=
                   [(CCount \<lparr>qfilter = [(''$and'', BArr rmQ)],
                             qsort = [''-UpdatedAt'', ''-CreatedAt''], qskip = None,
                             qlimit = None, qselect = None\<rparr>, None)]\<rparr>)
   \<and> (\<exists>q r. trace (user_world\<lparr>trace :=
                   [(CCount \<lparr>qfilter = [(''$and'', BArr rmQ)],
                             qsort = [''-UpdatedAt'', ''-CreatedAt''], qskip = None,
                             qlimit = None, qselect = None\<rparr>, None)]\<rparr>)
              = trace user_world @ [(CCount q, r)] \<and> (r \<noteq> None \<longrightarrow> (1::int) = 0))"
proof -
  have a: "perform AErase user_ctx (user_world\<lparr>faults := [Some (StoreFailure 7)]\<rparr>)
     = Returned (Some (StoreFailure 7), user_ctx,
                 user_world\<lparr>trace := [(CRemoveId (BOid 1), Some (StoreFailure 7))]\<rparr>)"
    by (simp add: Erase_def user_ctx_def user_world_def user_fields_def reflect_Interface_def
        FieldByName_def coll_RemoveId_def next_outcome_def reported_def)
  have b: "Count (user_ctx\<lparr>Query := Some []\<rparr>) user_world
     = Returned (1, user_ctx\<lparr>Query := Some [(''$and'', BArr rmQ)]\<rparr>,
                 user_world\<lparr>trace :=
                   [(CCount \<lparr>qfilter = [(''$and'', BArr rmQ)],
                             qsort = [''-UpdatedAt'', ''-CreatedAt''], qskip = None,
                             qlimit = None, qselect = None\<rparr>, None)]\<rparr>)"
    by (simp add: Count_def findQ_def user_ctx_def user_world_def query_Count_def
        next_outcome_def reported_def matching_def rmQ_def user_doc_def marshal_def
        user_fields_def)
  show ?thesis
    using a b store_errors_returned_as_is [THEN conjunct1, rule_format, OF a]
      store_errors_returned_as_is [THEN conjunct2, rule_format, OF b]
    by simp
qed

section \<open>Erase\<close>





section \<open>Panics of the mutating operations\<close>

lemma FieldByName_put_slot_other:
  "n \<noteq> n' \<Longrightarrow> FieldByName n (put_slot n' s fs) = FieldByName n fs"
  by (induction fs) (auto simp: FieldByName_def)

lemma FieldByName_put_slot_same:
  "FieldByName n (put_slot n s fs) = map_option (\<lambda>f. Fld (fname f) (fkey f) s) (FieldByName n fs)"
  by (induction fs) (auto simp: FieldByName_def)

lemma reflect_Set_None: "reflect_Set n v fs = None \<longleftrightarrow> \<not> settable n (kind_of v) fs"
  by (auto simp: reflect_Set_def settable_def split: option.splits slot.splits)

lemma reflect_Set_settable_other:
  "reflect_Set n' v fs = Some fs' \<Longrightarrow> n \<noteq> n' \<Longrightarrow> settable n k fs' = settable n k fs"
  by (auto simp: reflect_Set_def settable_def FieldByName_put_slot_other
      split: option.splits slot.splits if_splits)

lemma reflect_Set_present:
  "reflect_Set n' v fs = Some fs' \<Longrightarrow> present n fs' = present n fs"
  by (cases "n = n'")
     (auto simp: reflect_Set_def present_def FieldByName_put_slot_other FieldByName_put_slot_same
      split: option.splits slot.splits if_splits)

lemma reflect_Interface_None: "reflect_Interface n fs = None \<longleftrightarrow> \<not> present n fs"
  by (auto simp: reflect_Interface_def present_def)

lemma settable_present: "settable n k fs \<Longrightarrow> present n fs"
  by (auto simp: settable_def present_def split: option.splits)


lemma reflect_Set_cases:
  obtains (refused) "\<not> settable n (kind_of v) fs" "reflect_Set n v fs = None"
  | (assigned) fs' where "settable n (kind_of v) fs" "reflect_Set n v fs = Some fs'"
      "\<And>n' k. n' \<noteq> n \<Longrightarrow> settable n' k fs' = settable n' k fs"
      "\<And>n'. present n' fs' = present n' fs"
proof (cases "reflect_Set n v fs")
  case None
  then show ?thesis using refused by (simp add: reflect_Set_None)
next
  case (Some fs')
  then have "settable n (kind_of v) fs"
    using reflect_Set_None[of n v fs] by auto
  then show ?thesis
    using assigned[of fs'] Some reflect_Set_settable_other[OF Some] reflect_Set_present[OF Some]
    by blast
qed

lemma Create_Panicked:
  "Create m w = Panicked \<longleftrightarrow>
   \<not> usable (\<lambda>fs. settable ''Id'' KOid fs \<and> settable ''CreatedAt'' KTime fs \<and>
                  settable ''CreatedBy'' KStr fs) (model m)"
proof (cases "Elem (model m)")
  case None
  then show ?thesis by (simp add: Create_def usable_def)
next
  case (Some a)
  obtain n fs where a: "a = (n, fs)" by (cases a)
  show ?thesis
  proof (cases rule: reflect_Set_cases[where n="''Id''" and v="BOid (Suc (oids w))" and fs=fs])
    case refused
    then show ?thesis using Some a by (simp add: Create_def usable_def NewObjectId_def)
  next
    case d1: (assigned fs1)
    show ?thesis
    proof (cases rule: reflect_Set_cases[where n="''CreatedAt''" and v="BTime (Suc (clock w))" and fs=fs1])
      case refused
      then show ?thesis using Some a d1
        by (simp add: Create_def usable_def NewObjectId_def Now_def)
    next
      case d2: (assigned fs2)
      show ?thesis
      proof (cases rule: reflect_Set_cases[where n="''CreatedBy''" and v="BStr (Operator m)" and fs=fs2])
        case refused
        then show ?thesis using Some a d1 d2
          by (simp add: Create_def usable_def NewObjectId_def Now_def)
      next
        case d3: (assigned fs3)
        have "present ''Id'' fs3"
          using d1 d2 d3 by (auto dest: settable_present)
        then obtain i where "reflect_Interface ''Id'' fs3 = Some i"
          using reflect_Interface_None[of "''Id''" fs3] by (cases "reflect_Interface ''Id'' fs3") auto
        then show ?thesis using Some a d1 d2 d3
          by (simp add: Create_def usable_def NewObjectId_def Now_def split: prod.splits)
      qed
    qed
  qed
qed

lemma Save_Panicked:
  "Save m w = Panicked \<longleftrightarrow>
   \<not> usable (\<lambda>fs. settable ''UpdatedAt'' KTime fs \<and> settable ''UpdatedBy'' KStr fs \<and>
                  present ''Id'' fs) (model m)"
proof (cases "Elem (model m)")
  case None
  then show ?thesis by (simp add: Save_def usable_def)
next
  case (Some a)
  obtain n fs where a: "a = (n, fs)" by (cases a)
  show ?thesis
  proof (cases rule: reflect_Set_cases[where n="''UpdatedAt''" and v="BTime (Suc (clock w))" and fs=fs])
    case refused
    then show ?thesis using Some a by (simp add: Save_def usable_def Now_def)
  next
    case d1: (assigned fs1)
    show ?thesis
    proof (cases rule: reflect_Set_cases[where n="''UpdatedBy''" and v="BStr (Operator m)" and fs=fs1])
      case refused
      then show ?thesis using Some a d1 by (simp add: Save_def usable_def Now_def)
    next
      case d2: (assigned fs2)
      show ?thesis
      proof (cases "reflect_Interface ''Id'' fs2")
        case None
        then have "\<not> present ''Id'' fs2"
          using reflect_Interface_None[of "''Id''" fs2] by simp
        then show ?thesis using None Some a d1 d2
          by (simp add: Save_def usable_def Now_def)
      next
        case i: (Some i)
        then have "present ''Id'' fs2"
          using reflect_Interface_None[of "''Id''" fs2] by auto
        then show ?thesis using Some a d1 d2 i
          by (simp add: Save_def usable_def Now_def split: prod.splits)
      qed
    qed
  qed
qed

lemma Delete_Panicked:
  "Delete m w = Panicked \<longleftrightarrow>
   \<not> usable (\<lambda>fs. settable ''RemovedAt'' KTime fs \<and> settable ''RemovedBy'' KStr fs \<and>
                  settable ''IsRemoved'' KBool fs \<and> present ''Id'' fs) (model m)"
proof (cases "Elem (model m)")
  case None
  then show ?thesis by (simp add: Delete_def usable_def)
next
  case (Some a)
  obtain n fs where a: "a = (n, fs)" by (cases a)
  show ?thesis
  proof (cases rule: reflect_Set_cases[where n="''RemovedAt''" and v="BTime (Suc (clock w))" and fs=fs])
    case refused
    then show ?thesis using Some a by (simp add: Delete_def usable_def Now_def)
  next
    case d1: (assigned fs1)
    show ?thesis
    proof (cases rule: reflect_Set_cases[where n="''RemovedBy''" and v="BStr (Operator m)" and fs=fs1])
      case refused
      then show ?thesis using Some a d1 by (simp add: Delete_def usable_def Now_def)
    next
      case d2: (assigned fs2)
      show ?thesis
      proof (cases rule: reflect_Set_cases[where n="''IsRemoved''" and v="BBool True" and fs=fs2])
        case refused
        then show ?thesis using Some a d1 d2 by (simp add: Delete_def usable_def Now_def)
      next
        case d3: (assigned fs3)
        show ?thesis
        proof (cases "reflect_Interface ''Id'' fs3")
          case None
          then have "\<not> present ''Id'' fs3"
            using reflect_Interface_None[of "''Id''" fs3] by simp
          then show ?thesis using None Some a d1 d2 d3
            by (simp add: Delete_def usable_def Now_def)
        next
          case i: (Some i)
          then have "present ''Id'' fs3"
            using reflect_Interface_None[of "''Id''" fs3] by auto
          then show ?thesis using Some a d1 d2 d3 i
            by (simp add: Delete_def usable_def Now_def split: prod.splits)
        qed
      qed
    qed
  qed
qed

lemma Erase_Panicked: "Erase m w = Panicked \<longleftrightarrow> \<not> usable (present ''Id'') (model m)"
  by (auto simp: Erase_def usable_def reflect_Interface_None[symmetric]
      split: option.splits prod.splits)

text \<open>
  C9, as the claim states it, fails: an operation looks up only the fields it uses. A
  record type without \<open>UpdatedAt\<close>, \<open>RemovedAt\<close> or \<open>IsRemoved\<close> is created without a panic,
  and \<open>Erase\<close> works on a record whose \<open>Id\<close> is a string.
\<close>

theorem missing_field_need_not_fail:
  "map_option fst (returned (Create (user_ctx\<lparr>model := MPtr ''Note'' note_fields\<rparr>) empty_world))
     = Some None
   \<and> map_option fst (returned (Erase (user_ctx\<lparr>model := MPtr ''Tag'' tag_fields\<rparr>)
         (empty_world\<lparr>coll := [marshal tag_fields]\<rparr>))) = Some None"
  by (simp add: Create_def Erase_def user_ctx_def empty_world_def note_fields_def tag_fields_def
      NewObjectId_def Now_def reflect_Set_def reflect_Interface_def FieldByName_def
      coll_Upsert_def coll_RemoveId_def next_outcome_def reported_def marshal_def has_id_def)

text \<open>
  C9, amended: each mutating operation panics, and returns no error value, exactly when
  the model is not a pointer to a struct or a field the operation itself uses is unfit:
  \<open>Create\<close> needs \<open>Id\<close>, \<open>CreatedAt\<close> and \<open>CreatedBy\<close> to accept an object id, a time and a
  string; \<open>Save\<close> needs \<open>UpdatedAt\<close> and \<open>UpdatedBy\<close> to accept a time and a string and \<open>Id\<close>
  to exist; \<open>Delete\<close> needs \<open>RemovedAt\<close>, \<open>RemovedBy\<close> and \<open>IsRemoved\<close> to accept a time, a
  string and a boolean and \<open>Id\<close> to exist; \<open>Erase\<close> needs \<open>Id\<close> to exist. Fields an
  operation does not use, and the type of \<open>Id\<close> outside \<open>Create\<close>, play no part.
\<close>

theorem mutations_panic_exactly_on_fields_they_use:
  "(Create m w = Panicked \<longleftrightarrow>
      \<not> usable (\<lambda>fs. settable ''Id'' KOid fs \<and> settable ''CreatedAt'' KTime fs \<and>
                     settable ''CreatedBy'' KStr fs) (model m)) \<and>
   (Save m w = Panicked \<longleftrightarrow>
      \<not> usable (\<lambda>fs. settable ''UpdatedAt'' KTime fs \<and> settable ''UpdatedBy'' KStr fs \<and>
                     present ''Id'' fs) (model m)) \<and>
   (Delete m w = Panicked \<longleftrightarrow>
      \<not> usable (\<lambda>fs. settable ''RemovedAt'' KTime fs \<and> settable ''RemovedBy'' KStr fs \<and>
                     settable ''IsRemoved'' KBool fs \<and> present ''Id'' fs) (model m)) \<and>
   (Erase m w = Panicked \<longleftrightarrow> \<not> usable (present ''Id'') (model m))"
  by (intro conjI Create_Panicked Save_Panicked Delete_Panicked Erase_Panicked)

theorem mutations_panic_exactly_on_fields_they_use_witness:
  "Create (user_ctx\<lparr>model := MPtr ''Note'' note_fields\<rparr>) empty_world \<noteq> Panicked
   \<and> Save (user_ctx\<lparr>model := MPtr ''Note'' note_fields\<rparr>) empty_world = Panicked
   \<and> Delete (user_ctx\<lparr>model := MPtr ''Note'' note_fields\<rparr>) empty_world = Panicked
   \<and> Erase (user_ctx\<lparr>model := MPtr ''Note'' note_fields\<rparr>) empty_world \<noteq> Panicked
   \<and> Erase (user_ctx\<lparr>model := MStruct ''Note'' note_fields\<rparr>) empty_world = Panicked"
  using mutations_panic_exactly_on_fields_they_use
          [of "user_ctx\<lparr>model := MPtr ''Note'' note_fields\<rparr>" empty_world]
        mutations_panic_exactly_on_fields_they_use
          [of "user_ctx\<lparr>model := MStruct ''Note'' note_fields\<rparr>" empty_world]
  by (simp add: usable_def settable_def present_def FieldByName_def note_fields_def)

end
